theory Spec2Isabelle
  imports Main
begin

section \<open>Go values, strings and the clock\<close>

text \<open>
  The subject of a credential is a Go \<^verbatim>\<open>map[string]interface{}\<close>: a finite map from
  strings to dynamically typed values. Only the distinction "a string / something else /
  absent" is observed by the program (the type assertion \<^verbatim>\<open>.(string)\<close>).

  A Go string is a sequence of bytes, and \<^verbatim>\<open>fmt\<close> reads it rune by rune. A string value of
  the subject is held as the sequence of runes that is read from it, a rune being its code
  point (any natural number, so no rune is left out). The strings that the program itself
  writes (map keys, type tags, the issuer, the identifier) are Isabelle strings;
  \<open>runes\<close> gives the runes of such a string of ASCII characters.
\<close>

type_synonym rune = nat

definition rune :: "char \<Rightarrow> rune" where
  "rune c = of_char c"

definition runes :: "string \<Rightarrow> rune list" where
  "runes s = map rune s"

datatype GoValue = GoString "rune list" | GoInt int | GoBool bool | GoNil

type_synonym SubjectMap = "string \<rightharpoonup> GoValue"

text \<open>
  A reading of \<^verbatim>\<open>time.Now()\<close>. \<^verbatim>\<open>IssueCredential\<close> reads the clock three times (for the
  current year, for the identifier and for the issuance date); the three readings are
  inputs of the model.
\<close>

record Time =
  Year :: int
  UnixNano :: int

record Clock =
  now_year :: Time
  now_id :: Time
  now_issuance :: Time

section \<open>\<^verbatim>\<open>fmt.Sscanf(s, "%d", &birthYear)\<close>\<close>

text \<open>
  The library call that turns the claim into a year. It follows \<^verbatim>\<open>fmt\<close>'s \<^verbatim>\<open>scanInt\<close>
  for the verb \<^verbatim>\<open>%d\<close> and a 64-bit \<^verbatim>\<open>int\<close>: skip leading space (a newline is an error for
  \<^verbatim>\<open>Sscanf\<close>), accept one rune of \<^verbatim>\<open>sign\<close>, accept a non-empty run of runes of
  \<^verbatim>\<open>decimalDigits\<close>, and hand the token to \<^verbatim>\<open>strconv.ParseInt(tok, 10, 64)\<close>. Input after
  the token is not looked at.
\<close>

datatype scan_error =
    UnexpectedEOF | UnexpectedNewline | ExpectedInteger | SyntaxError | RangeError

text \<open>The table \<^verbatim>\<open>space\<close> of \<^verbatim>\<open>fmt\<close>; a rune from \<open>1 << 16\<close> on is no space.\<close>

definition isSpace :: "rune \<Rightarrow> bool" where
  "isSpace r =
     (r < 0x10000 \<and>
      ((0x0009 \<le> r \<and> r \<le> 0x000d) \<or> r = 0x0020 \<or> r = 0x0085 \<or> r = 0x00a0 \<or> r = 0x1680
       \<or> (0x2000 \<le> r \<and> r \<le> 0x200a) \<or> (0x2028 \<le> r \<and> r \<le> 0x2029) \<or> r = 0x202f
       \<or> r = 0x205f \<or> r = 0x3000))"

definition decimalDigits :: string where
  "decimalDigits = ''0123456789''"

definition sign :: string where
  "sign = ''+-''"

text \<open>\<^verbatim>\<open>accept(ok)\<close> takes the next rune when it occurs in the string \<^verbatim>\<open>ok\<close>.\<close>

definition accept :: "string \<Rightarrow> rune \<Rightarrow> bool" where
  "accept ok r = (r \<in> set (runes ok))"

fun SkipSpace :: "rune list \<Rightarrow> scan_error + rune list" where
  "SkipSpace [] = Inr []"
| "SkipSpace (r # rest) =
     (if r = rune (CHR 0x0D) \<and> (case rest of [] \<Rightarrow> False | n # _ \<Rightarrow> n = rune (CHR 0x0A))
      then SkipSpace rest
      else if r = rune (CHR 0x0A) then Inl UnexpectedNewline
      else if \<not> isSpace r then Inr (r # rest)
      else SkipSpace rest)"

text \<open>
  \<^verbatim>\<open>strconv.ParseUint\<close> and \<^verbatim>\<open>strconv.ParseInt\<close> for base 10 and 64 bits. The token holds
  ASCII only, so its bytes are its runes.
\<close>

definition is_decimal :: "rune \<Rightarrow> bool" where
  "is_decimal c = (rune CHR ''0'' \<le> c \<and> c \<le> rune CHR ''9'')"

fun ParseUint :: "nat \<Rightarrow> rune list \<Rightarrow> scan_error + nat" where
  "ParseUint n [] = Inr n"
| "ParseUint n (c # cs) =
     (if \<not> is_decimal c then Inl SyntaxError
      else if n \<ge> 1844674407370955162 then Inl RangeError
      else (let n1 = n * 10 + (c - rune CHR ''0'')
            in if n1 > 18446744073709551615 then Inl RangeError else ParseUint n1 cs))"

definition ParseInt :: "rune list \<Rightarrow> scan_error + int" where
  "ParseInt s =
     (case s of [] \<Rightarrow> Inl SyntaxError
      | c # cs \<Rightarrow>
         (let neg = (c = rune CHR ''-'');
              s' = (if c = rune CHR ''+'' \<or> c = rune CHR ''-'' then cs else s)
          in if s' = [] then Inl SyntaxError
             else (case ParseUint 0 s' of
                     Inl e \<Rightarrow> Inl e
                   | Inr un \<Rightarrow>
                       if \<not> neg \<and> un \<ge> 9223372036854775808 then Inl RangeError
                       else if neg \<and> un > 9223372036854775808 then Inl RangeError
                       else Inr (if neg then - int un else int un))))"

definition scanNumber :: "rune list \<Rightarrow> scan_error + rune list" where
  "scanNumber s =
     (case s of [] \<Rightarrow> Inl UnexpectedEOF
      | c # _ \<Rightarrow> if \<not> accept decimalDigits c then Inl ExpectedInteger
                 else Inr (takeWhile (accept decimalDigits) s))"

definition scanInt :: "rune list \<Rightarrow> scan_error + int" where
  "scanInt s =
     (case SkipSpace s of
        Inl e \<Rightarrow> Inl e
      | Inr s1 \<Rightarrow>
         (case s1 of [] \<Rightarrow> Inl UnexpectedEOF
          | c # cs \<Rightarrow>
             (let sg = (if accept sign c then [c] else []);
                  s2 = (if accept sign c then cs else s1)
              in case scanNumber s2 of
                   Inl e \<Rightarrow> Inl e
                 | Inr tok \<Rightarrow> ParseInt (sg @ tok))))"

definition Sscanf_d :: "rune list \<Rightarrow> scan_error + int" where
  "Sscanf_d s = scanInt s"

subsection \<open>\<^verbatim>\<open>fmt.Sprintf("urn:uuid:%d", n)\<close>\<close>

function decimal :: "nat \<Rightarrow> string" where
  "decimal n = (if n < 10 then [char_of (48 + n)]
                else decimal (n div 10) @ [char_of (48 + n mod 10)])"
  by pat_completeness auto
termination
  by (relation "measure id") auto

definition Sprintf_urn_uuid :: "int \<Rightarrow> string" where
  "Sprintf_urn_uuid n =
     ''urn:uuid:'' @ (if n < 0 then CHR ''-'' # decimal (nat (- n)) else decimal (nat n))"

section \<open>The circuit and the proving backend\<close>

text \<open>
  \<^verbatim>\<open>ecc.BN254.ScalarField()\<close>: the prime order of the field the circuit is compiled over.
  A field element is its canonical representative, a natural number below the modulus.
\<close>

definition ScalarField :: nat where
  "ScalarField = 21888242871839275222246405745257275088548364400416034343698204186575808495617"

type_synonym fr = nat

datatype gnark_error =
    NilVariable | ConstraintNotSatisfied | InvalidProof | BackendFault string

text \<open>
  A \<^verbatim>\<open>frontend.Variable\<close> is an \<^verbatim>\<open>interface{}\<close>; this program stores Go \<^verbatim>\<open>int\<close>s in it, and
  an unassigned variable is \<^verbatim>\<open>nil\<close> (\<open>None\<close>).
\<close>

type_synonym Variable = "int option"

record AgeCheckCircuit =
  BirthYear :: Variable
  CurrentYear :: Variable

text \<open>Assigning a Go integer to a field element: negative values wrap to the modulus.\<close>

definition SetInterface :: "int \<Rightarrow> fr" where
  "SetInterface v = nat (v mod int ScalarField)"

record Witness =
  public_part :: "fr list"
  secret_part :: "fr list"

text \<open>
  \<^verbatim>\<open>frontend.NewWitness(assignment, field)\<close> without options builds the full witness, public
  values first, and fails on a variable that is \<^verbatim>\<open>nil\<close>. \<^verbatim>\<open>witness.Public()\<close> keeps the
  public values only.
\<close>

definition NewWitness :: "AgeCheckCircuit \<Rightarrow> gnark_error + Witness" where
  "NewWitness assignment =
     (case CurrentYear assignment of
        None \<Rightarrow> Inl NilVariable
      | Some cy \<Rightarrow>
         (case BirthYear assignment of
            None \<Rightarrow> Inl NilVariable
          | Some b \<Rightarrow> Inr \<lparr>public_part = [SetInterface cy], secret_part = [SetInterface b]\<rparr>))"

definition Public :: "Witness \<Rightarrow> Witness" where
  "Public w = w\<lparr>secret_part := []\<rparr>"

text \<open>
  The operations of \<^verbatim>\<open>frontend.API\<close> that \<^verbatim>\<open>Define\<close> calls, as the library documents them
  and as the solver evaluates them: \<^verbatim>\<open>Sub\<close> subtracts in the field; \<^verbatim>\<open>Cmp\<close> "returns 1 if
  i1>i2, 0 if i1=i2, -1 if i1<i2", comparing the bits of the canonical representatives
  (\<open>-1\<close> is the field element \<open>ScalarField - 1\<close>); \<^verbatim>\<open>AssertIsEqual\<close> is the constraint
  that fails the solver when its arguments differ.
\<close>

definition api_Sub :: "fr \<Rightarrow> fr \<Rightarrow> fr" where
  "api_Sub i1 i2 = (i1 + ScalarField - i2) mod ScalarField"

definition api_Cmp :: "fr \<Rightarrow> fr \<Rightarrow> fr" where
  "api_Cmp i1 i2 = (if i1 > i2 then 1 else if i1 = i2 then 0 else ScalarField - 1)"

definition api_AssertIsEqual :: "fr \<Rightarrow> fr \<Rightarrow> gnark_error option" where
  "api_AssertIsEqual i1 i2 = (if i1 = i2 then None else Some ConstraintNotSatisfied)"

text \<open>\<^verbatim>\<open>AgeCheckCircuit.Define\<close> on the values of \<^verbatim>\<open>BirthYear\<close> and \<^verbatim>\<open>CurrentYear\<close>.\<close>

definition Define :: "fr \<Rightarrow> fr \<Rightarrow> gnark_error option" where
  "Define birthYear currentYear =
     (let age = api_Sub currentYear birthYear;
          isOver18 = api_Cmp age 18
      in api_AssertIsEqual isOver18 1)"

type_synonym circuit_definition = "fr \<Rightarrow> fr \<Rightarrow> gnark_error option"

text \<open>
  The backend (\<^verbatim>\<open>frontend.Compile\<close>, \<^verbatim>\<open>groth16.Setup\<close>, \<^verbatim>\<open>groth16.Prove\<close>,
  \<^verbatim>\<open>groth16.Verify\<close>) is a library outside the repository. The program is modelled over
  any backend: a record of the four operations, with the types of constraint systems,
  keys and proofs left open. The randomness of \<^verbatim>\<open>Setup\<close> is an explicit argument.
\<close>

record ('cs, 'pk, 'vk, 'prf) groth16 =
  Compile :: "circuit_definition \<Rightarrow> gnark_error + 'cs"
  Setup :: "'cs \<Rightarrow> nat \<Rightarrow> gnark_error + ('pk \<times> 'vk)"
  Prove :: "'cs \<Rightarrow> 'pk \<Rightarrow> Witness \<Rightarrow> gnark_error + 'prf"
  Verify :: "'prf \<Rightarrow> 'vk \<Rightarrow> Witness \<Rightarrow> gnark_error option"

definition InitCircuit ::
  "('cs, 'pk, 'vk, 'prf) groth16 \<Rightarrow> nat \<Rightarrow> gnark_error + ('pk \<times> 'vk \<times> 'cs)" where
  "InitCircuit b seed =
     (case Compile b Define of
        Inl err \<Rightarrow> Inl err
      | Inr r1cs \<Rightarrow>
         (case Setup b r1cs seed of
            Inl err \<Rightarrow> Inl err
          | Inr (pk, vk) \<Rightarrow> Inr (pk, vk, r1cs)))"

definition generateZKProof ::
  "('cs, 'pk, 'vk, 'prf) groth16 \<Rightarrow> 'pk \<Rightarrow> 'cs \<Rightarrow> int \<Rightarrow> int
     \<Rightarrow> gnark_error + ('prf \<times> AgeCheckCircuit)" where
  "generateZKProof b pk r1cs birthYear currentYear =
     (let assignment = \<lparr>BirthYear = Some birthYear, CurrentYear = Some currentYear\<rparr>
      in case NewWitness assignment of
           Inl err \<Rightarrow> Inl err
         | Inr witness \<Rightarrow>
            (case Prove b r1cs pk witness of
               Inl err \<Rightarrow> Inl err
             | Inr proof \<Rightarrow> Inr (proof, assignment)))"

text \<open>
  \<^verbatim>\<open>verifyZKProof\<close> dereferences the proof pointer only at the call of \<^verbatim>\<open>Verify\<close>; a
  \<^verbatim>\<open>nil\<close> pointer panics there. The circuit is passed by pointer; the model takes the
  assignment it points to. The lines that \<^verbatim>\<open>generateZKProof\<close> and \<^verbatim>\<open>verifyZKProof\<close> print
  on an error are console output and are left out.
\<close>

datatype 'a outcome = Panic | Return 'a

definition verifyZKProof ::
  "('cs, 'pk, 'vk, 'prf) groth16 \<Rightarrow> AgeCheckCircuit \<Rightarrow> 'prf option \<Rightarrow> 'vk
     \<Rightarrow> gnark_error option outcome" where
  "verifyZKProof b circuit proof vk =
     (case NewWitness circuit of
        Inl err \<Rightarrow> Return (Some err)
      | Inr witness \<Rightarrow>
         (let publicWitness = Public witness
          in case proof of
               None \<Rightarrow> Panic
             | Some p \<Rightarrow> Return (Verify b p vk publicWitness)))"

section \<open>Credentials and the wallet\<close>

record 'prf Credential =
  ID :: string
  Type :: "string list"
  Issuer :: string
  IssuanceDate :: Time
  Subject :: SubjectMap
  Proof :: "'prf option"

record 'prf Wallet =
  Credentials :: "'prf Credential list"

definition NewWallet :: "'prf Wallet" where
  "NewWallet = \<lparr>Credentials = []\<rparr>"

datatype error =
    BirthDateMissingOrNotString
  | FailedToParseBirthYear scan_error
  | FailedToGenerateZKP gnark_error

text \<open>
  \<^verbatim>\<open>Wallet.IssueCredential\<close>. The receiver (a pointer to a wallet, as \<^verbatim>\<open>NewWallet\<close>
  returns it) is mutated in place, so the model returns the wallet after the call next to
  the result. On an error Go returns the zero credential, a
  \<^verbatim>\<open>nil\<close> circuit and the error: \<open>Inl\<close>. The verifying key is a parameter that the body
  never uses.
\<close>

definition IssueCredential ::
  "('cs, 'pk, 'vk, 'prf) groth16 \<Rightarrow> Clock \<Rightarrow> 'prf Wallet \<Rightarrow> 'pk \<Rightarrow> 'vk \<Rightarrow> 'cs \<Rightarrow> SubjectMap
     \<Rightarrow> (error + ('prf Credential \<times> AgeCheckCircuit)) \<times> 'prf Wallet" where
  "IssueCredential b clock w pk vk r1cs subject =
     (case subject ''birthDate'' of
        Some (GoString birthYearFloat) \<Rightarrow>
          (case Sscanf_d birthYearFloat of
             Inl err \<Rightarrow> (Inl (FailedToParseBirthYear err), w)
           | Inr birthYear \<Rightarrow>
              (let currentYear = Year (now_year clock)
               in case generateZKProof b pk r1cs birthYear currentYear of
                    Inl err \<Rightarrow> (Inl (FailedToGenerateZKP err), w)
                  | Inr (zkpProof, circuit) \<Rightarrow>
                     (let cred = \<lparr>ID = Sprintf_urn_uuid (UnixNano (now_id clock)),
                                  Type = [''VerifiableCredential'', ''eIDASIdentityCredential''],
                                  Issuer = ''did:example:issuer123'',
                                  IssuanceDate = now_issuance clock,
                                  Subject = subject,
                                  Proof = Some zkpProof\<rparr>
                      in (Inr (cred, circuit),
                          w\<lparr>Credentials := Credentials w @ [cred]\<rparr>))))
      | _ \<Rightarrow> (Inl BirthDateMissingOrNotString, w))"

text \<open>
  \<^verbatim>\<open>VerifyCredential\<close> returns \<^verbatim>\<open>(false, err)\<close> or \<^verbatim>\<open>(true, nil)\<close>. The credential is passed
  by pointer; the model takes the credential it points to.
\<close>

definition VerifyCredential ::
  "('cs, 'pk, 'vk, 'prf) groth16 \<Rightarrow> AgeCheckCircuit \<Rightarrow> 'prf Credential \<Rightarrow> 'vk
     \<Rightarrow> (bool \<times> gnark_error option) outcome" where
  "VerifyCredential b circuit cred vk =
     (case verifyZKProof b circuit (Proof cred) vk of
        Panic \<Rightarrow> Panic
      | Return (Some err) \<Rightarrow> Return (False, Some err)
      | Return None \<Rightarrow> Return (True, None))"

section \<open>A reference backend\<close>

text \<open>
  The contract of the library in its simplest form, used to run the program on concrete
  inputs: a constraint system is the circuit's definition, a key is the number of the
  setup run it stems from, \<^verbatim>\<open>Prove\<close> runs the solver on the witness and fails on a violated
  constraint, and a proof records the key and the public inputs it was made for.
  \<^verbatim>\<open>Verify\<close> accepts a proof exactly under the key of the same setup and for the same
  public inputs.
\<close>

record ideal_proof =
  proof_setup :: nat
  proof_public :: "fr list"

definition ideal_Prove ::
  "circuit_definition \<Rightarrow> nat \<Rightarrow> Witness \<Rightarrow> gnark_error + ideal_proof" where
  "ideal_Prove r1cs pk witness =
     (case (public_part witness, secret_part witness) of
        ([cy], [b]) \<Rightarrow>
          (case r1cs b cy of
             Some err \<Rightarrow> Inl err
           | None \<Rightarrow> Inr \<lparr>proof_setup = pk, proof_public = public_part witness\<rparr>)
      | _ \<Rightarrow> Inl (BackendFault ''witness size''))"

definition ideal_Verify :: "ideal_proof \<Rightarrow> nat \<Rightarrow> Witness \<Rightarrow> gnark_error option" where
  "ideal_Verify proof vk publicWitness =
     (if proof_setup proof = vk \<and> proof_public proof = public_part publicWitness
         \<and> secret_part publicWitness = []
      then None else Some InvalidProof)"

definition ideal :: "(circuit_definition, nat, nat, ideal_proof) groth16" where
  "ideal = \<lparr>Compile = (\<lambda>d. Inr d),
            Setup = (\<lambda>r1cs seed. Inr (seed, seed)),
            Prove = ideal_Prove,
            Verify = ideal_Verify\<rparr>"

text \<open>The subject of the repository's own \<^verbatim>\<open>issueCredential\<close>, with a birth date to choose.\<close>

definition subject_born :: "string \<Rightarrow> SubjectMap" where
  "subject_born d =
     [''id'' \<mapsto> GoString (runes ''did:example:user123''),
      ''givenName'' \<mapsto> GoString (runes ''Adrien''),
      ''familyName'' \<mapsto> GoString (runes ''Smith''),
      ''birthDate'' \<mapsto> GoString (runes d),
      ''nationality'' \<mapsto> GoString (runes ''FR'')]"

definition clock_2024 :: Clock where
  "clock_2024 =
     \<lparr>now_year = \<lparr>Year = 2024, UnixNano = 1704067200000000000\<rparr>,
      now_id = \<lparr>Year = 2024, UnixNano = 1704067200000000001\<rparr>,
      now_issuance = \<lparr>Year = 2024, UnixNano = 1704067200000000002\<rparr>\<rparr>"

text \<open>
  The credential that the reference backend issues for the birth date \<^verbatim>\<open>1984-01-01\<close> under
  the setup with number \<open>7\<close> and the clock above.
\<close>

definition cred_1984 :: "ideal_proof Credential" where
  "cred_1984 =
     \<lparr>ID = Sprintf_urn_uuid 1704067200000000001,
      Type = [''VerifiableCredential'', ''eIDASIdentityCredential''],
      Issuer = ''did:example:issuer123'',
      IssuanceDate = \<lparr>Year = 2024, UnixNano = 1704067200000000002\<rparr>,
      Subject = subject_born ''1984-01-01'',
      Proof = Some \<lparr>proof_setup = 7, proof_public = [2024]\<rparr>\<rparr>"

section \<open>Reference notions for the claims\<close>

text \<open>The range of a Go \<^verbatim>\<open>int\<close> on a 64-bit platform.\<close>

definition is_int64 :: "int \<Rightarrow> bool" where
  "is_int64 i = (- 9223372036854775808 \<le> i \<and> i \<le> 9223372036854775807)"

text \<open>
  What the program relies on from the library: for keys and a constraint system that come
  from one run of \<^verbatim>\<open>InitCircuit\<close>, a witness that satisfies the circuit gets a proof, and
  that proof verifies under the verifying key for the public part of the witness.
\<close>

definition groth16_complete :: "('cs, 'pk, 'vk, 'prf) groth16 \<Rightarrow> bool" where
  "groth16_complete b =
     (\<forall>seed pk vk r1cs birth cy.
        InitCircuit b seed = Inr (pk, vk, r1cs) \<longrightarrow>
        birth < ScalarField \<longrightarrow> cy < ScalarField \<longrightarrow> Define birth cy = None \<longrightarrow>
        (\<exists>p. Prove b r1cs pk \<lparr>public_part = [cy], secret_part = [birth]\<rparr> = Inr p
             \<and> Verify b p vk \<lparr>public_part = [cy], secret_part = []\<rparr> = None))"

text \<open>
  The strings that \<^verbatim>\<open>Sscanf\<close> with \<^verbatim>\<open>%d\<close> accepts, said without the scanner: blanks
  (spaces other than a newline), an optional sign, and a non-empty run of decimal digits,
  taken as far as it goes, with a value in the range of \<^verbatim>\<open>int\<close>. Anything may follow.
\<close>

definition digit_step :: "nat \<Rightarrow> rune \<Rightarrow> nat" where
  "digit_step n c = n * 10 + (c - rune CHR ''0'')"

definition decimal_value :: "rune list \<Rightarrow> nat" where
  "decimal_value ds = foldl digit_step 0 ds"

definition blank :: "rune \<Rightarrow> bool" where
  "blank c = (isSpace c \<and> c \<noteq> rune (CHR 0x0A))"

definition leading_integer :: "rune list \<Rightarrow> int \<Rightarrow> bool" where
  "leading_integer s v =
     (\<exists>ws sg ds rest.
        s = ws @ sg @ ds @ rest
        \<and> list_all blank ws
        \<and> (sg = [] \<or> sg = runes ''+'' \<or> sg = runes ''-'')
        \<and> ds \<noteq> [] \<and> list_all is_decimal ds
        \<and> (case rest of [] \<Rightarrow> True | c # _ \<Rightarrow> \<not> is_decimal c)
        \<and> v = (if sg = runes ''-'' then - int (decimal_value ds) else int (decimal_value ds))
        \<and> is_int64 v)"

text \<open>
  The format of the specification, \<^verbatim>\<open>YYYY-MM-DD\<close>: four digits, a hyphen, two digits, a
  hyphen, two digits. Every calendar date written in the format has this shape.
\<close>

fun YYYY_MM_DD_format :: "rune list \<Rightarrow> bool" where
  "YYYY_MM_DD_format [y1, y2, y3, y4, h1, m1, m2, h2, d1, d2] =
     (is_decimal y1 \<and> is_decimal y2 \<and> is_decimal y3 \<and> is_decimal y4
      \<and> h1 = rune CHR ''-'' \<and> is_decimal m1 \<and> is_decimal m2
      \<and> h2 = rune CHR ''-'' \<and> is_decimal d1 \<and> is_decimal d2)"
| "YYYY_MM_DD_format _ = False"

definition year_of :: "rune list \<Rightarrow> int" where
  "year_of s = int (decimal_value (take 4 s))"

text \<open>
  What \<^verbatim>\<open>IssueCredential\<close> returns once the birth year is known: the error of the proof
  generation, or the credential around the proof.
\<close>

definition issue_for_year ::
  "('cs, 'pk, 'vk, 'prf) groth16 \<Rightarrow> Clock \<Rightarrow> 'pk \<Rightarrow> 'cs \<Rightarrow> SubjectMap \<Rightarrow> int
     \<Rightarrow> error + ('prf Credential \<times> AgeCheckCircuit)" where
  "issue_for_year b clock pk r1cs subject birthYear =
     (case generateZKProof b pk r1cs birthYear (Year (now_year clock)) of
        Inl err \<Rightarrow> Inl (FailedToGenerateZKP err)
      | Inr (zkpProof, circuit) \<Rightarrow>
          Inr (\<lparr>ID = Sprintf_urn_uuid (UnixNano (now_id clock)),
                Type = [''VerifiableCredential'', ''eIDASIdentityCredential''],
                Issuer = ''did:example:issuer123'',
                IssuanceDate = now_issuance clock,
                Subject = subject,
                Proof = Some zkpProof\<rparr>, circuit))"

section \<open>Runs on concrete inputs\<close>

lemmas scan_defs =
  Sscanf_d_def scanInt_def scanNumber_def ParseInt_def isSpace_def sign_def
  decimalDigits_def is_decimal_def accept_def runes_def rune_def

lemmas circuit_defs =
  Define_def SetInterface_def api_Sub_def api_Cmp_def api_AssertIsEqual_def ScalarField_def

lemmas ideal_defs =
  ideal_def ideal_Prove_def ideal_Verify_def NewWitness_def Public_def generateZKProof_def
  verifyZKProof_def

lemma Sscanf_1984: "Sscanf_d (runes ''1984-01-01'') = Inr 1984"
  by (simp add: scan_defs)

lemma Sscanf_2006: "Sscanf_d (runes ''2006-01-01'') = Inr 2006"
  by (simp add: scan_defs)

lemma Sscanf_2010: "Sscanf_d (runes ''2010-01-01'') = Inr 2010"
  by (simp add: scan_defs)

lemma Sscanf_2030: "Sscanf_d (runes ''2030-01-01'') = Inr 2030"
  by (simp add: scan_defs)

lemma birthDate_subject_born [simp]:
  "subject_born d ''birthDate'' = Some (GoString (runes d))"
  by (simp add: subject_born_def)

lemma generate_1984:
  "generateZKProof ideal 7 Define 1984 2024 =
     Inr (\<lparr>proof_setup = 7, proof_public = [2024]\<rparr>,
          \<lparr>BirthYear = Some 1984, CurrentYear = Some 2024\<rparr>)"
  by (simp add: ideal_defs circuit_defs)

lemma generate_2006:
  "generateZKProof ideal 7 Define 2006 2024 = Inl ConstraintNotSatisfied"
  by (simp add: ideal_defs circuit_defs)

lemma generate_2010:
  "generateZKProof ideal 7 Define 2010 2024 = Inl ConstraintNotSatisfied"
  by (simp add: ideal_defs circuit_defs)

lemma generate_2030:
  "generateZKProof ideal 7 Define 2030 2024 =
     Inr (\<lparr>proof_setup = 7, proof_public = [2024]\<rparr>,
          \<lparr>BirthYear = Some 2030, CurrentYear = Some 2024\<rparr>)"
  by (simp add: ideal_defs circuit_defs)

lemma issue_1984:
  "IssueCredential ideal clock_2024 w 7 7 Define (subject_born ''1984-01-01'') =
     (Inr (cred_1984, \<lparr>BirthYear = Some 1984, CurrentYear = Some 2024\<rparr>),
      w\<lparr>Credentials := Credentials w @ [cred_1984]\<rparr>)"
  by (simp add: IssueCredential_def Sscanf_1984 generate_1984 clock_2024_def cred_1984_def
        Let_def)

lemma issue_2010:
  "IssueCredential ideal clock_2024 w 7 7 Define (subject_born ''2010-01-01'') =
     (Inl (FailedToGenerateZKP ConstraintNotSatisfied), w)"
  by (simp add: IssueCredential_def Sscanf_2010 generate_2010 clock_2024_def)

lemma verify_1984:
  "VerifyCredential ideal \<lparr>BirthYear = Some 1984, CurrentYear = Some 2024\<rparr> cred_1984 7
     = Return (True, None)"
  by (simp add: VerifyCredential_def ideal_defs cred_1984_def SetInterface_def ScalarField_def)

lemma Sscanf_2005: "Sscanf_d (runes ''2005-01-01'') = Inr 2005"
  by (simp add: scan_defs)

lemma issue_2006:
  "IssueCredential ideal clock_2024 w 7 7 Define (subject_born ''2006-01-01'') =
     (Inl (FailedToGenerateZKP ConstraintNotSatisfied), w)"
  by (simp add: IssueCredential_def Sscanf_2006 generate_2006 clock_2024_def)

lemma issue_2030:
  "fst (IssueCredential ideal clock_2024 w 7 7 Define (subject_born ''2030-01-01'')) =
     Inr (cred_1984\<lparr>Subject := subject_born ''2030-01-01''\<rparr>,
          \<lparr>BirthYear = Some 2030, CurrentYear = Some 2024\<rparr>)"
  by (simp add: IssueCredential_def Sscanf_2030 generate_2030 clock_2024_def cred_1984_def
        Let_def)

lemma not_a_date: "Sscanf_d (runes ''not-a-date'') = Inl ExpectedInteger"
  by (simp add: scan_defs)

lemma Sscanf_1984_only: "Sscanf_d (runes ''1984'') = Inr 1984"
  by (simp add: scan_defs)

text \<open>An underscore ends the digits of \<^verbatim>\<open>%d\<close>, and does not begin them.\<close>

lemma Sscanf_underscores:
  "Sscanf_d (runes ''1984_01_01'') = Inr 1984"
  "Sscanf_d (runes ''1_984'') = Inr 1"
  "Sscanf_d (runes ''_1984'') = Inl ExpectedInteger"
  by (simp_all add: scan_defs)

lemma issue_1984_underscores:
  "fst (IssueCredential ideal clock_2024 w 7 7 Define (subject_born ''1984_01_01'')) =
     Inr (cred_1984\<lparr>Subject := subject_born ''1984_01_01''\<rparr>,
          \<lparr>BirthYear = Some 1984, CurrentYear = Some 2024\<rparr>)"
  by (simp add: IssueCredential_def Sscanf_underscores generate_1984 clock_2024_def
        cred_1984_def Let_def)

lemma issue_1984_only:
  "fst (IssueCredential ideal clock_2024 w 7 7 Define (subject_born ''1984'')) =
     Inr (cred_1984\<lparr>Subject := subject_born ''1984''\<rparr>,
          \<lparr>BirthYear = Some 1984, CurrentYear = Some 2024\<rparr>)"
  by (simp add: IssueCredential_def Sscanf_1984_only generate_1984 clock_2024_def
        cred_1984_def Let_def)

section \<open>The circuit over the scalar field\<close>

lemma ScalarField_pos: "0 < ScalarField"
  by (simp add: ScalarField_def)

lemma SetInterface_less: "SetInterface v < ScalarField"
  using ScalarField_pos by (simp add: SetInterface_def nat_less_iff)

lemma api_Sub_SetInterface:
  "api_Sub (SetInterface c) (SetInterface b) = nat ((c - b) mod int ScalarField)"
proof -
  let ?p = "int ScalarField"
  have p: "0 < ?p" using ScalarField_pos by simp
  have cb: "0 \<le> c mod ?p" "c mod ?p < ?p" "0 \<le> b mod ?p" "b mod ?p < ?p"
    using p by simp_all
  have "int (api_Sub (SetInterface c) (SetInterface b))
          = (c mod ?p + ?p - b mod ?p) mod ?p"
    using cb by (simp add: api_Sub_def SetInterface_def zmod_int of_nat_diff)
  also have "\<dots> = (c - b) mod ?p"
    by (metis add.commute add_diff_eq mod_add_self1 mod_diff_eq)
  finally show ?thesis by (metis nat_int)
qed

lemma Define_iff:
  "Define (SetInterface b) (SetInterface c) = None \<longleftrightarrow> 18 < (c - b) mod int ScalarField"
proof -
  have big: "2 < ScalarField" by (simp add: ScalarField_def)
  show ?thesis
    using big by (auto simp: Define_def api_Sub_SetInterface api_Cmp_def api_AssertIsEqual_def Let_def)
qed

lemma Define_adult:
  assumes "is_int64 b" "is_int64 c" "18 < c - b"
  shows "Define (SetInterface b) (SetInterface c) = None"
proof -
  have "c - b < int ScalarField"
    using assms by (simp add: is_int64_def ScalarField_def)
  then have "(c - b) mod int ScalarField = c - b"
    using assms(3) by simp
  then show ?thesis using assms(3) by (simp add: Define_iff)
qed

lemma Define_at_most_18:
  assumes "is_int64 b" "is_int64 c" "0 \<le> c - b" "c - b \<le> 18"
  shows "Define (SetInterface b) (SetInterface c) = Some ConstraintNotSatisfied"
proof -
  have "c - b < int ScalarField"
    using assms by (simp add: is_int64_def ScalarField_def)
  then have "(c - b) mod int ScalarField = c - b"
    using assms(3) by simp
  then have "Define (SetInterface b) (SetInterface c) \<noteq> None" using assms(4) by (simp add: Define_iff)
  then show ?thesis
    by (auto simp: Define_def api_AssertIsEqual_def Let_def split: if_splits)
qed

lemma Define_unborn:
  assumes "is_int64 b" "is_int64 c" "c < b"
  shows "Define (SetInterface b) (SetInterface c) = None"
proof -
  let ?p = "int ScalarField"
  have lo: "0 \<le> c - b + ?p" and hi: "c - b + ?p < ?p" and big: "18 < c - b + ?p"
    using assms by (simp_all add: is_int64_def ScalarField_def)
  have "(c - b) mod ?p = (c - b + ?p) mod ?p" by simp
  also have "\<dots> = c - b + ?p" using lo hi by (rule mod_pos_pos_trivial)
  finally show ?thesis using big by (simp add: Define_iff)
qed

subsection \<open>The scanned year is a Go integer; the reference backend is complete\<close>

lemma ParseInt_int64: "ParseInt t = Inr y \<Longrightarrow> is_int64 y"
  by (auto simp: ParseInt_def is_int64_def Let_def split: list.splits sum.splits if_splits)

lemma Sscanf_d_int64: "Sscanf_d s = Inr y \<Longrightarrow> is_int64 y"
  by (auto simp: Sscanf_d_def scanInt_def Let_def dest: ParseInt_int64
           split: list.splits sum.splits if_splits)

lemma groth16_complete_ideal: "groth16_complete ideal"
  by (simp add: groth16_complete_def InitCircuit_def ideal_def ideal_Prove_def ideal_Verify_def)

lemma InitCircuit_ideal: "InitCircuit ideal seed = Inr (seed, seed, Define)"
  by (simp add: InitCircuit_def ideal_def)

section \<open>What the scanner accepts\<close>

lemma rune_values:
  "rune (CHR 0x0D) = 13" "rune (CHR 0x0A) = 10" "rune CHR ''+'' = 43" "rune CHR ''-'' = 45"
  "rune CHR ''0'' = 48" "rune CHR ''9'' = 57"
  by (simp_all add: rune_def)

lemma runes_sign: "runes ''+'' = [rune CHR ''+'']" "runes ''-'' = [rune CHR ''-'']"
  by (simp_all add: runes_def)

lemma is_decimal_iff: "is_decimal c \<longleftrightarrow> 48 \<le> c \<and> c \<le> 57"
  by (simp add: is_decimal_def rune_values)

lemma accept_decimalDigits_iff: "accept decimalDigits c \<longleftrightarrow> is_decimal c"
proof
  assume "accept decimalDigits c"
  then show "is_decimal c"
    by (auto simp: accept_def decimalDigits_def runes_def rune_def is_decimal_iff)
next
  assume "is_decimal c"
  then have "c = 48 \<or> c = 49 \<or> c = 50 \<or> c = 51 \<or> c = 52 \<or> c = 53 \<or> c = 54 \<or> c = 55
             \<or> c = 56 \<or> c = 57"
    unfolding is_decimal_iff by arith
  then show "accept decimalDigits c"
    by (auto simp: accept_def decimalDigits_def runes_def rune_def)
qed

lemma accept_decimalDigits: "accept decimalDigits = is_decimal"
  by (rule ext) (rule accept_decimalDigits_iff)

lemma accept_sign: "accept sign c \<longleftrightarrow> c = rune CHR ''+'' \<or> c = rune CHR ''-''"
  by (auto simp: accept_def sign_def runes_def)

lemma isSpace_CR: "isSpace (rune (CHR 0x0D))" and isSpace_LF: "isSpace (rune (CHR 0x0A))"
  by (simp_all add: isSpace_def rune_values)

lemma not_isSpace_D: "\<not> isSpace x \<Longrightarrow> x \<noteq> rune (CHR 0x0D) \<and> x \<noteq> rune (CHR 0x0A)"
  using isSpace_CR isSpace_LF by blast

lemma is_decimal_not_space: "is_decimal c \<Longrightarrow> \<not> isSpace c"
  by (auto simp: is_decimal_iff isSpace_def)

lemma is_decimal_not_sign: "is_decimal c \<Longrightarrow> \<not> accept sign c"
  by (auto simp: is_decimal_iff accept_sign rune_values)

lemma sign_not_space: "accept sign c \<Longrightarrow> \<not> isSpace c"
  by (auto simp: accept_sign rune_values isSpace_def)

lemma SkipSpace_blank:
  "list_all blank ws \<Longrightarrow> \<not> isSpace x \<Longrightarrow> SkipSpace (ws @ x # xs) = Inr (x # xs)"
proof (induction ws)
  case Nil
  then show ?case using not_isSpace_D [of x] by simp
next
  case (Cons r ws)
  then show ?case by (simp add: blank_def)
qed

lemma SkipSpace_Inr:
  "SkipSpace s = Inr s1 \<Longrightarrow>
     \<exists>ws. s = ws @ s1 \<and> list_all blank ws \<and> (case s1 of [] \<Rightarrow> True | x # _ \<Rightarrow> \<not> isSpace x)"
proof (induction s)
  case Nil
  then show ?case by simp
next
  case (Cons r rest)
  show ?case
  proof (cases "isSpace r \<and> r \<noteq> rune (CHR 0x0A)")
    case True
    with Cons.prems have "SkipSpace rest = Inr s1"
      by (simp split: if_splits)
    from Cons.IH [OF this] obtain ws where
      "rest = ws @ s1" "list_all blank ws" "case s1 of [] \<Rightarrow> True | x # _ \<Rightarrow> \<not> isSpace x"
      by blast
    with True have "r # rest = (r # ws) @ s1 \<and> list_all blank (r # ws)
        \<and> (case s1 of [] \<Rightarrow> True | x # _ \<Rightarrow> \<not> isSpace x)"
      by (simp add: blank_def)
    then show ?thesis by blast
  next
    case False
    with Cons.prems have "s1 = r # rest" "\<not> isSpace r"
      using isSpace_CR by (auto simp: rune_values split: if_splits)
    then have "r # rest = [] @ s1 \<and> list_all blank []
        \<and> (case s1 of [] \<Rightarrow> True | x # _ \<Rightarrow> \<not> isSpace x)"
      by simp
    then show ?thesis by blast
  qed
qed

lemma foldl_digit_step_ge: "n \<le> foldl digit_step n cs"
proof (induction cs arbitrary: n)
  case Nil
  show ?case by simp
next
  case (Cons c cs)
  have "n \<le> digit_step n c" by (simp add: digit_step_def)
  also have "\<dots> \<le> foldl digit_step (digit_step n c) cs" by (rule Cons.IH)
  finally show ?case by simp
qed

lemma ParseUint_Cons:
  "ParseUint n (c # cs) =
     (if \<not> is_decimal c then Inl SyntaxError
      else if n \<ge> 1844674407370955162 then Inl RangeError
      else if digit_step n c > 18446744073709551615 then Inl RangeError
      else ParseUint (digit_step n c) cs)"
  by (auto simp: digit_step_def Let_def is_decimal_iff rune_values)

lemma ParseUint_iff:
  "n \<le> 18446744073709551615 \<Longrightarrow>
   ParseUint n cs = Inr u \<longleftrightarrow>
     list_all is_decimal cs \<and> u = foldl digit_step n cs \<and> u \<le> 18446744073709551615"
proof (induction cs arbitrary: n)
  case Nil
  then show ?case by auto
next
  case (Cons c cs)
  let ?n1 = "digit_step n c"
  have ge: "?n1 \<le> foldl digit_step ?n1 cs" by (rule foldl_digit_step_ge)
  show ?case
  proof (cases "is_decimal c")
    case False
    then show ?thesis by simp
  next
    case dec: True
    show ?thesis
    proof (cases "n \<ge> 1844674407370955162")
      case True
      then have "?n1 > 18446744073709551615" by (simp add: digit_step_def)
      with ge True dec show ?thesis by (auto simp: ParseUint_Cons simp del: ParseUint.simps)
    next
      case small: False
      show ?thesis
      proof (cases "?n1 > 18446744073709551615")
        case True
        with ge small dec show ?thesis
          by (auto simp: ParseUint_Cons simp del: ParseUint.simps)
      next
        case False
        then have "?n1 \<le> 18446744073709551615" by simp
        from Cons.IH [OF this] small dec False show ?thesis
          by (simp add: ParseUint_Cons del: ParseUint.simps)
      qed
    qed
  qed
qed

lemma ParseUint_Inr:
  "list_all is_decimal ds \<Longrightarrow> decimal_value ds \<le> 18446744073709551615
     \<Longrightarrow> ParseUint 0 ds = Inr (decimal_value ds)"
  using ParseUint_iff [of 0 ds "decimal_value ds"] by (simp add: decimal_value_def)

lemma ParseUint_InrD:
  "ParseUint 0 ds = Inr u \<Longrightarrow> list_all is_decimal ds \<and> u = decimal_value ds"
  using ParseUint_iff [of 0 ds u] by (simp add: decimal_value_def)

lemma ParseInt_signed_iff:
  assumes "accept sign c"
  shows "ParseInt (c # ds) = Inr v \<longleftrightarrow>
           ds \<noteq> [] \<and> list_all is_decimal ds
           \<and> v = (if c = rune CHR ''-'' then - int (decimal_value ds)
                  else int (decimal_value ds))
           \<and> is_int64 v"
proof (cases "ds = []")
  case True
  then show ?thesis using assms by (simp add: ParseInt_def accept_sign)
next
  case False
  show ?thesis
  proof (cases "ParseUint 0 ds")
    case (Inl e)
    have "\<not> (list_all is_decimal ds \<and> decimal_value ds \<le> 18446744073709551615)"
      using Inl ParseUint_Inr [of ds] by auto
    then show ?thesis
      using assms False Inl
      by (auto simp: ParseInt_def Let_def is_int64_def accept_sign split: if_splits)
  next
    case (Inr un)
    from ParseUint_InrD [OF this] have "list_all is_decimal ds" "un = decimal_value ds"
      by simp_all
    then show ?thesis
      using assms False Inr
      by (auto simp: ParseInt_def Let_def is_int64_def accept_sign)
  qed
qed

lemma ParseInt_unsigned_iff:
  assumes "\<not> accept sign c"
  shows "ParseInt (c # ds) = Inr v \<longleftrightarrow>
           list_all is_decimal (c # ds) \<and> v = int (decimal_value (c # ds)) \<and> is_int64 v"
proof (cases "ParseUint 0 (c # ds)")
  case (Inl e)
  have "\<not> (list_all is_decimal (c # ds)
            \<and> decimal_value (c # ds) \<le> 18446744073709551615)"
    using Inl ParseUint_Inr [of "c # ds"] by auto
  then show ?thesis
    using assms Inl
    by (auto simp: ParseInt_def Let_def is_int64_def accept_sign simp del: ParseUint.simps)
next
  case (Inr un)
  from ParseUint_InrD [OF this] have
    "list_all is_decimal (c # ds)" "un = decimal_value (c # ds)"
    by simp_all
  then show ?thesis
    using assms Inr
    by (auto simp: ParseInt_def Let_def is_int64_def accept_sign simp del: ParseUint.simps)
qed

lemma dropWhile_head: "case dropWhile P xs of [] \<Rightarrow> True | c # _ \<Rightarrow> \<not> P c"
  by (induction xs) auto

lemma scanNumber_Inr:
  "scanNumber s2 = Inr tok \<Longrightarrow>
     tok = takeWhile is_decimal s2 \<and> tok \<noteq> [] \<and> s2 = tok @ dropWhile is_decimal s2"
  by (auto simp: scanNumber_def accept_decimalDigits split: list.splits if_splits)

lemma takeWhile_digits:
  assumes "list_all is_decimal ds"
      and "case rest of [] \<Rightarrow> True | c # _ \<Rightarrow> \<not> is_decimal c"
  shows "takeWhile is_decimal (ds @ rest) = ds"
proof -
  have "\<And>x. x \<in> set ds \<Longrightarrow> is_decimal x"
    using assms(1) by (simp add: list_all_iff)
  then have "takeWhile is_decimal (ds @ rest) = ds @ takeWhile is_decimal rest"
    by (rule takeWhile_append2)
  moreover have "takeWhile is_decimal rest = []"
    using assms(2) by (cases rest) auto
  ultimately show ?thesis by simp
qed

lemma scanNumber_digits:
  assumes "ds \<noteq> []" and "list_all is_decimal ds"
      and "case rest of [] \<Rightarrow> True | c # _ \<Rightarrow> \<not> is_decimal c"
  shows "scanNumber (ds @ rest) = Inr ds"
proof -
  from assms(1) obtain d ds' where ds: "ds = d # ds'" by (cases ds) auto
  with assms(2) have "is_decimal d" by simp
  with ds takeWhile_digits [OF assms(2,3)] show ?thesis
    by (simp add: scanNumber_def accept_decimalDigits)
qed

lemma leading_integerI:
  assumes "s = ws @ sg @ ds @ rest" and "list_all blank ws"
      and "sg = [] \<or> sg = runes ''+'' \<or> sg = runes ''-''"
      and "ds \<noteq> []" and "list_all is_decimal ds"
      and "case rest of [] \<Rightarrow> True | c # _ \<Rightarrow> \<not> is_decimal c"
      and "v = (if sg = runes ''-'' then - int (decimal_value ds) else int (decimal_value ds))"
      and "is_int64 v"
  shows "leading_integer s v"
  unfolding leading_integer_def using assms by blast

lemma Sscanf_d_imp_leading:
  assumes "Sscanf_d s = Inr v"
  shows "leading_integer s v"
proof -
  from assms obtain s1 where skip: "SkipSpace s = Inr s1"
    by (auto simp: Sscanf_d_def scanInt_def split: sum.splits)
  from assms skip obtain c cs where s1: "s1 = c # cs"
    by (auto simp: Sscanf_d_def scanInt_def split: list.splits)
  from SkipSpace_Inr [OF skip] s1 obtain ws where
    ws: "s = ws @ c # cs" "list_all blank ws"
    by auto
  show ?thesis
  proof (cases "accept sign c")
    case True
    with assms skip s1 obtain tok where
      tok: "scanNumber cs = Inr tok" and parse: "ParseInt (c # tok) = Inr v"
      by (auto simp: Sscanf_d_def scanInt_def Let_def split: sum.splits)
    from scanNumber_Inr [OF tok] have cs: "cs = tok @ dropWhile is_decimal cs" by simp
    from parse ParseInt_signed_iff [OF True, of tok v]
    have v: "tok \<noteq> []" "list_all is_decimal tok"
      "v = (if c = rune CHR ''-'' then - int (decimal_value tok) else int (decimal_value tok))"
      "is_int64 v"
      by blast+
    have split: "s = ws @ [c] @ tok @ dropWhile is_decimal cs"
      using ws(1) cs by simp
    have sg: "[c] = [] \<or> [c] = runes ''+'' \<or> [c] = runes ''-''"
      using True by (simp add: accept_sign runes_sign)
    have val: "v = (if [c] = runes ''-'' then - int (decimal_value tok)
                    else int (decimal_value tok))"
      using v(3) by (simp add: runes_sign)
    from split ws(2) sg v(1,2) dropWhile_head [of is_decimal cs] val v(4)
    show ?thesis by (rule leading_integerI)
  next
    case False
    with assms skip s1 obtain tok where
      tok: "scanNumber (c # cs) = Inr tok" and parse: "ParseInt tok = Inr v"
      by (auto simp: Sscanf_d_def scanInt_def Let_def split: sum.splits)
    from scanNumber_Inr [OF tok] have
      ccs: "c # cs = tok @ dropWhile is_decimal (c # cs)" and ne: "tok \<noteq> []"
      and tk: "tok = takeWhile is_decimal (c # cs)"
      by blast+
    from tk ne obtain tok' where tok': "tok = c # tok'"
      by (auto split: if_splits)
    from parse ParseInt_unsigned_iff [OF False, of tok' v]
    have v: "list_all is_decimal tok" "v = int (decimal_value tok)" "is_int64 v"
      unfolding tok' by blast+
    have split: "s = ws @ [] @ tok @ dropWhile is_decimal (c # cs)"
      using ws(1) ccs by simp
    have sg: "[] = [] \<or> [] = runes ''+'' \<or> [] = runes ''-''"
      by simp
    have val: "v = (if [] = runes ''-'' then - int (decimal_value tok)
                    else int (decimal_value tok))"
      using v(2) by (simp add: runes_sign)
    from split ws(2) sg ne v(1) dropWhile_head [of is_decimal "c # cs"] val v(3)
    show ?thesis by (rule leading_integerI)
  qed
qed

lemma leading_imp_Sscanf_d:
  assumes "leading_integer s v"
  shows "Sscanf_d s = Inr v"
proof -
  from assms obtain ws sg ds rest where
    s: "s = ws @ sg @ ds @ rest" and ws: "list_all blank ws"
    and sg: "sg = [] \<or> sg = runes ''+'' \<or> sg = runes ''-''"
    and ds: "ds \<noteq> []" "list_all is_decimal ds"
    and rest: "case rest of [] \<Rightarrow> True | c # _ \<Rightarrow> \<not> is_decimal c"
    and v: "v = (if sg = runes ''-'' then - int (decimal_value ds) else int (decimal_value ds))"
    and range: "is_int64 v"
    unfolding leading_integer_def by blast
  from ds obtain d ds' where dds: "ds = d # ds'" "is_decimal d"
    by (cases ds) auto
  have num: "scanNumber (ds @ rest) = Inr ds"
    using ds rest by (rule scanNumber_digits)
  show ?thesis
  proof (cases "sg = []")
    case True
    have "SkipSpace (ws @ d # (ds' @ rest)) = Inr (d # (ds' @ rest))"
      using ws is_decimal_not_space [OF dds(2)] by (rule SkipSpace_blank)
    moreover have "ParseInt (d # ds') = Inr v"
      using ds v range True dds is_decimal_not_sign [OF dds(2)]
      by (simp add: ParseInt_unsigned_iff runes_sign)
    ultimately show ?thesis
      using num dds is_decimal_not_sign [OF dds(2)] True s
      by (simp add: Sscanf_d_def scanInt_def)
  next
    case False
    with sg obtain c where c: "sg = [c]" "accept sign c"
      by (auto simp: accept_sign runes_sign)
    have "SkipSpace (ws @ c # (ds @ rest)) = Inr (c # (ds @ rest))"
      using ws sign_not_space [OF c(2)] by (rule SkipSpace_blank)
    moreover have "ParseInt (c # ds) = Inr v"
      using ds v range c by (simp add: ParseInt_signed_iff runes_sign)
    ultimately show ?thesis
      using num c s by (simp add: Sscanf_d_def scanInt_def)
  qed
qed

lemma Sscanf_d_iff: "Sscanf_d s = Inr v \<longleftrightarrow> leading_integer s v"
  using Sscanf_d_imp_leading leading_imp_Sscanf_d by blast

lemma YYYY_MM_DD_leading:
  assumes "YYYY_MM_DD_format s"
  shows "leading_integer s (year_of s)"
proof -
  from assms obtain y1 y2 y3 y4 m1 m2 d1 d2 where
    s: "s = [y1, y2, y3, y4, rune CHR ''-'', m1, m2, rune CHR ''-'', d1, d2]"
    and y: "is_decimal y1" "is_decimal y2" "is_decimal y3" "is_decimal y4"
    by (auto elim: YYYY_MM_DD_format.elims(2))
  let ?ds = "[y1, y2, y3, y4]"
  let ?rest = "[rune CHR ''-'', m1, m2, rune CHR ''-'', d1, d2]"
  have step: "digit_step n c \<le> n * 10 + 9" if "is_decimal c" for n c
    using that by (auto simp: digit_step_def is_decimal_iff rune_values)
  have "digit_step 0 y1 \<le> 9"
    using step [OF y(1), of 0] by simp
  then have "digit_step (digit_step 0 y1) y2 \<le> 99"
    using step [OF y(2), of "digit_step 0 y1"] by linarith
  then have "digit_step (digit_step (digit_step 0 y1) y2) y3 \<le> 999"
    using step [OF y(3), of "digit_step (digit_step 0 y1) y2"] by linarith
  then have "digit_step (digit_step (digit_step (digit_step 0 y1) y2) y3) y4 \<le> 9999"
    using step [OF y(4), of "digit_step (digit_step (digit_step 0 y1) y2) y3"] by linarith
  then have "decimal_value ?ds \<le> 9999"
    by (simp add: decimal_value_def)
  then have range: "is_int64 (int (decimal_value ?ds))"
    by (simp add: is_int64_def)
  have year: "year_of s = (if [] = runes ''-'' then - int (decimal_value ?ds)
                           else int (decimal_value ?ds))"
    by (simp add: year_of_def s runes_sign)
  have range': "is_int64 (year_of s)"
    using range year by (simp add: runes_sign)
  have split: "s = [] @ [] @ ?ds @ ?rest" by (simp add: s)
  have digits: "list_all is_decimal ?ds" using y by simp
  have stop: "case ?rest of [] \<Rightarrow> True | c # _ \<Rightarrow> \<not> is_decimal c"
    by (simp add: is_decimal_iff rune_values)
  from leading_integerI [OF split _ _ _ digits stop year range'] show ?thesis
    by simp
qed

section \<open>Parsing the claim\<close>

text \<open>
  C7, as the code has it. \<^verbatim>\<open>IssueCredential\<close> fails with "birthDate field is missing or
  not a string" exactly when the claim is absent or is not a string. It fails with "failed
  to parse birth year" exactly when the claim is a string that does not begin with an
  integer (blanks, an optional sign, decimal digits, in the range of \<^verbatim>\<open>int\<close>); what follows
  the integer is not looked at. When the string begins with an integer, that integer is
  the birth year: the call returns what the proof generation for that year gives. Every
  string in the format \<^verbatim>\<open>YYYY-MM-DD\<close> begins with such an integer, its year, and
  \<^verbatim>\<open>not-a-date\<close> does not. This holds for every backend and every string of runes.
\<close>

theorem IssueCredential_claim_parsing:
  "(fst (IssueCredential b clock w pk vk r1cs subject) = Inl BirthDateMissingOrNotString
      \<longleftrightarrow> (\<forall>s. subject ''birthDate'' \<noteq> Some (GoString s)))
   \<and> ((\<exists>e. fst (IssueCredential b clock w pk vk r1cs subject) = Inl (FailedToParseBirthYear e))
      \<longleftrightarrow> (\<exists>s. subject ''birthDate'' = Some (GoString s) \<and> (\<forall>v. \<not> leading_integer s v)))
   \<and> (\<forall>s v. subject ''birthDate'' = Some (GoString s) \<longrightarrow> leading_integer s v \<longrightarrow>
         fst (IssueCredential b clock w pk vk r1cs subject)
           = issue_for_year b clock pk r1cs subject v)
   \<and> (\<forall>s. YYYY_MM_DD_format s \<longrightarrow> leading_integer s (year_of s))
   \<and> (\<forall>v. \<not> leading_integer (runes ''not-a-date'') v)"
proof (intro conjI)
  show "fst (IssueCredential b clock w pk vk r1cs subject) = Inl BirthDateMissingOrNotString
      \<longleftrightarrow> (\<forall>s. subject ''birthDate'' \<noteq> Some (GoString s))"
    by (auto simp: IssueCredential_def Let_def
             split: option.splits GoValue.splits sum.splits prod.splits)
next
  show "(\<exists>e. fst (IssueCredential b clock w pk vk r1cs subject)
                = Inl (FailedToParseBirthYear e))
      \<longleftrightarrow> (\<exists>s. subject ''birthDate'' = Some (GoString s) \<and> (\<forall>v. \<not> leading_integer s v))"
    by (auto simp: IssueCredential_def Let_def Sscanf_d_iff [symmetric]
             split: option.splits GoValue.splits sum.splits prod.splits)
next
  show "\<forall>s v. subject ''birthDate'' = Some (GoString s) \<longrightarrow> leading_integer s v \<longrightarrow>
         fst (IssueCredential b clock w pk vk r1cs subject)
           = issue_for_year b clock pk r1cs subject v"
    by (auto simp: IssueCredential_def issue_for_year_def Let_def Sscanf_d_iff [symmetric]
             split: sum.splits prod.splits)
next
  show "\<forall>s. YYYY_MM_DD_format s \<longrightarrow> leading_integer s (year_of s)"
    using YYYY_MM_DD_leading by blast
next
  show "\<forall>v. \<not> leading_integer (runes ''not-a-date'') v"
    using not_a_date by (simp add: Sscanf_d_iff [symmetric])
qed

theorem IssueCredential_claim_parsing_witness:
  "YYYY_MM_DD_format (runes ''1984-01-01'')
   \<and> subject_born ''1984-01-01'' ''birthDate'' = Some (GoString (runes ''1984-01-01''))
   \<and> leading_integer (runes ''1984-01-01'') 1984
   \<and> fst (IssueCredential ideal clock_2024 NewWallet 7 7 Define (subject_born ''1984-01-01''))
       = Inr (cred_1984, \<lparr>BirthYear = Some 1984, CurrentYear = Some 2024\<rparr>)
   \<and> fst (IssueCredential ideal clock_2024 NewWallet 7 7 Define Map.empty)
       = Inl BirthDateMissingOrNotString
   \<and> (\<exists>e. fst (IssueCredential ideal clock_2024 NewWallet 7 7 Define
                 (subject_born ''not-a-date'')) = Inl (FailedToParseBirthYear e))"
proof -
  have fmt: "YYYY_MM_DD_format (runes ''1984-01-01'')"
    by (simp add: runes_def rune_def is_decimal_def)
  have year: "year_of (runes ''1984-01-01'') = 1984"
    by (simp add: year_of_def decimal_value_def digit_step_def runes_def rune_def)
  have for_year: "issue_for_year ideal clock_2024 7 Define (subject_born ''1984-01-01'') 1984
                    = Inr (cred_1984, \<lparr>BirthYear = Some 1984, CurrentYear = Some 2024\<rparr>)"
    by (simp add: issue_for_year_def generate_1984 clock_2024_def cred_1984_def)
  note missing = IssueCredential_claim_parsing
    [of ideal clock_2024 NewWallet 7 7 Define Map.empty]
  note dated = IssueCredential_claim_parsing
    [of ideal clock_2024 NewWallet 7 7 Define "subject_born ''1984-01-01''"]
  note malformed = IssueCredential_claim_parsing
    [of ideal clock_2024 NewWallet 7 7 Define "subject_born ''not-a-date''"]
  from missing have m: "fst (IssueCredential ideal clock_2024 NewWallet 7 7 Define Map.empty)
       = Inl BirthDateMissingOrNotString"
    by simp
  from dated fmt have "leading_integer (runes ''1984-01-01'') (year_of (runes ''1984-01-01''))"
    by blast
  then have lead: "leading_integer (runes ''1984-01-01'') 1984"
    by (simp only: year)
  from dated lead birthDate_subject_born [of "''1984-01-01''"]
  have "fst (IssueCredential ideal clock_2024 NewWallet 7 7 Define
               (subject_born ''1984-01-01''))
          = issue_for_year ideal clock_2024 7 Define (subject_born ''1984-01-01'') 1984"
    by blast
  then have issued: "fst (IssueCredential ideal clock_2024 NewWallet 7 7 Define
               (subject_born ''1984-01-01''))
          = Inr (cred_1984, \<lparr>BirthYear = Some 1984, CurrentYear = Some 2024\<rparr>)"
    by (simp only: for_year)
  from malformed have bad: "\<exists>e. fst (IssueCredential ideal clock_2024 NewWallet 7 7 Define
                 (subject_born ''not-a-date'')) = Inl (FailedToParseBirthYear e)"
    using birthDate_subject_born [of "''not-a-date''"] by blast
  from fmt lead issued m bad show ?thesis
    by (simp only: birthDate_subject_born simp_thms)
qed

text \<open>
  C7, as the specification states it, fails in both of its "exactly when": the strings
  \<^verbatim>\<open>1984\<close> and \<^verbatim>\<open>1984_01_01\<close> are not in the format \<^verbatim>\<open>YYYY-MM-DD\<close> and a credential is
  issued for each with the birth year 1984, and a claim that is present but holds the
  integer 1984 gives the error of a missing claim.
\<close>

theorem IssueCredential_accepts_non_date:
  "\<not> YYYY_MM_DD_format (runes ''1984'')
   \<and> fst (IssueCredential ideal clock_2024 NewWallet 7 7 Define (subject_born ''1984''))
       = Inr (cred_1984\<lparr>Subject := subject_born ''1984''\<rparr>,
              \<lparr>BirthYear = Some 1984, CurrentYear = Some 2024\<rparr>)
   \<and> \<not> YYYY_MM_DD_format (runes ''1984_01_01'')
   \<and> fst (IssueCredential ideal clock_2024 NewWallet 7 7 Define (subject_born ''1984_01_01''))
       = Inr (cred_1984\<lparr>Subject := subject_born ''1984_01_01''\<rparr>,
              \<lparr>BirthYear = Some 1984, CurrentYear = Some 2024\<rparr>)
   \<and> [''birthDate'' \<mapsto> GoInt 1984] ''birthDate'' \<noteq> None
   \<and> fst (IssueCredential ideal clock_2024 NewWallet 7 7 Define [''birthDate'' \<mapsto> GoInt 1984])
       = Inl BirthDateMissingOrNotString"
proof -
  have "fst (IssueCredential ideal clock_2024 NewWallet 7 7 Define
               [''birthDate'' \<mapsto> GoInt 1984]) = Inl BirthDateMissingOrNotString"
    by (simp add: IssueCredential_def)
  moreover have "\<not> YYYY_MM_DD_format (runes ''1984'')"
    by (simp add: runes_def)
  moreover have "\<not> YYYY_MM_DD_format (runes ''1984_01_01'')"
    by (simp add: runes_def rune_def)
  ultimately show ?thesis
    by (simp add: issue_1984_only issue_1984_underscores)
qed

section \<open>The age predicate\<close>

text \<open>
  C4. The code wants to prove that the age is above 18; the subtraction is in the scalar
  field, where \<^verbatim>\<open>currentYear - birthYear\<close> wraps to a large element when the birth year is
  the greater. For all Go integers with \<^verbatim>\<open>currentYear < birthYear\<close> the circuit is
  satisfied, the reference backend generates a proof, and that proof verifies.
\<close>

theorem Define_negative_age:
  assumes "is_int64 birthYear" and "is_int64 currentYear" and "currentYear < birthYear"
  shows "Define (SetInterface birthYear) (SetInterface currentYear) = None
         \<and> generateZKProof ideal k Define birthYear currentYear
             = Inr (\<lparr>proof_setup = k, proof_public = [SetInterface currentYear]\<rparr>,
                    \<lparr>BirthYear = Some birthYear, CurrentYear = Some currentYear\<rparr>)
         \<and> verifyZKProof ideal \<lparr>BirthYear = Some birthYear, CurrentYear = Some currentYear\<rparr>
             (Some \<lparr>proof_setup = k, proof_public = [SetInterface currentYear]\<rparr>) k
             = Return None"
proof -
  have sat: "Define (SetInterface birthYear) (SetInterface currentYear) = None"
    using assms by (rule Define_unborn)
  then show ?thesis by (simp add: ideal_defs)
qed

theorem Define_negative_age_witness:
  "is_int64 2030 \<and> is_int64 2024 \<and> (2024::int) < 2030
   \<and> Define (SetInterface 2030) (SetInterface 2024) = None
   \<and> generateZKProof ideal 7 Define 2030 2024
       = Inr (\<lparr>proof_setup = 7, proof_public = [2024]\<rparr>,
              \<lparr>BirthYear = Some 2030, CurrentYear = Some 2024\<rparr>)
   \<and> verifyZKProof ideal \<lparr>BirthYear = Some 2030, CurrentYear = Some 2024\<rparr>
       (Some \<lparr>proof_setup = 7, proof_public = [2024]\<rparr>) 7 = Return None"
proof -
  have a: "is_int64 2030" and b: "is_int64 2024" and c: "(2024::int) < 2030"
    by (simp_all add: is_int64_def)
  have s: "SetInterface 2024 = 2024"
    by (simp add: SetInterface_def ScalarField_def)
  from Define_negative_age [OF a b c, of 7] a b s show ?thesis by simp
qed

section \<open>Issuance\<close>

text \<open>
  C1, as the code has it. The circuit asserts that the age is above 18, not that it is
  at least 18. For every backend that is complete, keys and constraint system from one
  run of \<^verbatim>\<open>InitCircuit\<close>, a subject whose \<^verbatim>\<open>birthDate\<close> parses to a birth year, and a
  current year with \<^verbatim>\<open>currentYear - birthYear > 18\<close>: \<^verbatim>\<open>IssueCredential\<close> returns a
  credential, and \<^verbatim>\<open>VerifyCredential\<close> returns true for it with the returned assignment
  and the verifying key of the same setup.
\<close>

theorem IssueCredential_complete:
  assumes complete: "groth16_complete b"
      and keys: "InitCircuit b seed = Inr (pk, vk, r1cs)"
      and claim: "subject ''birthDate'' = Some (GoString s)"
      and parse: "Sscanf_d s = Inr birthYear"
      and year: "is_int64 (Year (now_year clock))"
      and adult: "18 < Year (now_year clock) - birthYear"
  shows "\<exists>cred circuit.
           fst (IssueCredential b clock w pk vk r1cs subject) = Inr (cred, circuit)
           \<and> VerifyCredential b circuit cred vk = Return (True, None)"
proof -
  let ?cy = "Year (now_year clock)"
  have sat: "Define (SetInterface birthYear) (SetInterface ?cy) = None"
    using Sscanf_d_int64 [OF parse] year adult by (rule Define_adult)
  from complete keys sat obtain p where
    prove: "Prove b r1cs pk \<lparr>public_part = [SetInterface ?cy],
                             secret_part = [SetInterface birthYear]\<rparr> = Inr p"
    and verify: "Verify b p vk \<lparr>public_part = [SetInterface ?cy], secret_part = []\<rparr> = None"
    unfolding groth16_complete_def using SetInterface_less by blast
  have gen: "generateZKProof b pk r1cs birthYear ?cy
               = Inr (p, \<lparr>BirthYear = Some birthYear, CurrentYear = Some ?cy\<rparr>)"
    by (simp add: generateZKProof_def NewWitness_def prove)
  have issue: "fst (IssueCredential b clock w pk vk r1cs subject)
     = Inr (\<lparr>ID = Sprintf_urn_uuid (UnixNano (now_id clock)),
             Type = [''VerifiableCredential'', ''eIDASIdentityCredential''],
             Issuer = ''did:example:issuer123'',
             IssuanceDate = now_issuance clock,
             Subject = subject,
             Proof = Some p\<rparr>,
            \<lparr>BirthYear = Some birthYear, CurrentYear = Some ?cy\<rparr>)"
    by (simp add: IssueCredential_def claim parse gen Let_def)
  have "VerifyCredential b \<lparr>BirthYear = Some birthYear, CurrentYear = Some ?cy\<rparr>
          \<lparr>ID = Sprintf_urn_uuid (UnixNano (now_id clock)),
             Type = [''VerifiableCredential'', ''eIDASIdentityCredential''],
             Issuer = ''did:example:issuer123'',
             IssuanceDate = now_issuance clock,
             Subject = subject,
             Proof = Some p\<rparr> vk = Return (True, None)"
    by (simp add: VerifyCredential_def verifyZKProof_def NewWitness_def Public_def verify)
  with issue show ?thesis by blast
qed

theorem IssueCredential_complete_witness:
  "groth16_complete ideal
   \<and> InitCircuit ideal 7 = Inr (7, 7, Define)
   \<and> subject_born ''2005-01-01'' ''birthDate'' = Some (GoString (runes ''2005-01-01''))
   \<and> Sscanf_d (runes ''2005-01-01'') = Inr 2005
   \<and> is_int64 (Year (now_year clock_2024))
   \<and> 18 < Year (now_year clock_2024) - 2005
   \<and> (\<exists>cred circuit.
         fst (IssueCredential ideal clock_2024 NewWallet 7 7 Define
                (subject_born ''2005-01-01'')) = Inr (cred, circuit)
         \<and> VerifyCredential ideal circuit cred 7 = Return (True, None))"
proof -
  have year: "is_int64 (Year (now_year clock_2024))"
    by (simp add: is_int64_def clock_2024_def)
  have adult: "18 < Year (now_year clock_2024) - 2005"
    by (simp add: clock_2024_def)
  from IssueCredential_complete
         [where b = ideal and subject = "subject_born ''2005-01-01''" and w = NewWallet,
          OF groth16_complete_ideal InitCircuit_ideal birthDate_subject_born Sscanf_2005
             year adult, of 7]
       groth16_complete_ideal InitCircuit_ideal [of 7] Sscanf_2005 year adult
  show ?thesis by simp
qed

text \<open>
  C1, as the specification states it, fails at the boundary: born in 2006, in the year
  2024, the age is 18 and issuance fails with a violated constraint.
\<close>

theorem IssueCredential_fails_at_18:
  "InitCircuit ideal 7 = Inr (7, 7, Define)
   \<and> Sscanf_d (runes ''2006-01-01'') = Inr 2006
   \<and> Year (now_year clock_2024) - 2006 = 18
   \<and> fst (IssueCredential ideal clock_2024 NewWallet 7 7 Define
            (subject_born ''2006-01-01'')) = Inl (FailedToGenerateZKP ConstraintNotSatisfied)"
proof -
  have "Year (now_year clock_2024) - 2006 = 18"
    by (simp add: clock_2024_def)
  then show ?thesis
    by (simp add: InitCircuit_ideal Sscanf_2006 issue_2006)
qed

text \<open>
  C2. A subject born in 2030 has, in 2024, an age below 18; the code issues a credential
  with a proof, and the proof verifies.
\<close>

theorem IssueCredential_future_birth:
  "Sscanf_d (runes ''2030-01-01'') = Inr 2030
   \<and> Year (now_year clock_2024) - 2030 < 18
   \<and> (case fst (IssueCredential ideal clock_2024 NewWallet 7 7 Define
                  (subject_born ''2030-01-01'')) of
        Inl err \<Rightarrow> False
      | Inr (cred, circuit) \<Rightarrow>
          Proof cred = Some \<lparr>proof_setup = 7, proof_public = [2024]\<rparr>
          \<and> VerifyCredential ideal circuit cred 7 = Return (True, None))"
proof -
  have "Year (now_year clock_2024) - 2030 < 18"
    by (simp add: clock_2024_def)
  moreover have "VerifyCredential ideal \<lparr>BirthYear = Some 2030, CurrentYear = Some 2024\<rparr>
                   (cred_1984\<lparr>Subject := subject_born ''2030-01-01''\<rparr>) 7 = Return (True, None)"
    by (simp add: VerifyCredential_def ideal_defs cred_1984_def SetInterface_def
          ScalarField_def)
  moreover have "Proof (cred_1984\<lparr>Subject := subject_born ''2030-01-01''\<rparr>)
                   = Some \<lparr>proof_setup = 7, proof_public = [2024]\<rparr>"
    by (simp add: cred_1984_def)
  ultimately show ?thesis
    by (simp add: Sscanf_2030 issue_2030)
qed

section \<open>The wallet\<close>

text \<open>
  C9. Whenever \<^verbatim>\<open>IssueCredential\<close> returns an error (the claim is missing or not a string,
  it does not parse, the witness cannot be built or the proof cannot be generated), the
  wallet's credential list is exactly as it was before the call, for every backend.
\<close>

theorem IssueCredential_error_keeps_wallet:
  "fst (IssueCredential b clock w pk vk r1cs subject) = Inl err
     \<Longrightarrow> snd (IssueCredential b clock w pk vk r1cs subject) = w"
  by (auto simp: IssueCredential_def Let_def
           split: option.splits GoValue.splits sum.splits prod.splits)

theorem IssueCredential_error_keeps_wallet_witness:
  "fst (IssueCredential ideal clock_2024 \<lparr>Credentials = [cred_1984]\<rparr> 7 7 Define
          (subject_born ''2010-01-01'')) = Inl (FailedToGenerateZKP ConstraintNotSatisfied)
   \<and> snd (IssueCredential ideal clock_2024 \<lparr>Credentials = [cred_1984]\<rparr> 7 7 Define
          (subject_born ''2010-01-01'')) = \<lparr>Credentials = [cred_1984]\<rparr>"
proof -
  have h: "fst (IssueCredential ideal clock_2024 \<lparr>Credentials = [cred_1984]\<rparr> 7 7 Define
          (subject_born ''2010-01-01'')) = Inl (FailedToGenerateZKP ConstraintNotSatisfied)"
    by (simp add: issue_2010)
  from IssueCredential_error_keeps_wallet [OF h] h show ?thesis by simp
qed

text \<open>
  C5, as the code has it. \<^verbatim>\<open>IssueCredential\<close> is a method of the wallet and does the append
  itself: on success the wallet after the call is the wallet before it with the returned
  credential added at the end, for every backend.
\<close>

theorem IssueCredential_appends:
  "fst (IssueCredential b clock w pk vk r1cs subject) = Inr (cred, circuit)
     \<Longrightarrow> snd (IssueCredential b clock w pk vk r1cs subject)
           = w\<lparr>Credentials := Credentials w @ [cred]\<rparr>"
  by (auto simp: IssueCredential_def Let_def
           split: option.splits GoValue.splits sum.splits prod.splits)

theorem IssueCredential_appends_witness:
  "fst (IssueCredential ideal clock_2024 NewWallet 7 7 Define (subject_born ''1984-01-01''))
     = Inr (cred_1984, \<lparr>BirthYear = Some 1984, CurrentYear = Some 2024\<rparr>)
   \<and> snd (IssueCredential ideal clock_2024 NewWallet 7 7 Define (subject_born ''1984-01-01''))
     = \<lparr>Credentials = [cred_1984]\<rparr>"
proof -
  have h: "fst (IssueCredential ideal clock_2024 NewWallet 7 7 Define
             (subject_born ''1984-01-01''))
           = Inr (cred_1984, \<lparr>BirthYear = Some 1984, CurrentYear = Some 2024\<rparr>)"
    by (simp add: issue_1984)
  from IssueCredential_appends [OF h] h show ?thesis by (simp add: NewWallet_def)
qed

text \<open>
  C5, as the specification states it (issuing leaves the wallet alone), fails: issuing
  for the repository's own subject changes the empty wallet.
\<close>

theorem IssueCredential_mutates_wallet:
  "snd (IssueCredential ideal clock_2024 NewWallet 7 7 Define (subject_born ''1984-01-01''))
     \<noteq> NewWallet"
  by (simp add: issue_1984 NewWallet_def)

section \<open>The credential envelope\<close>

text \<open>
  C8, as the code has it. Every credential that \<^verbatim>\<open>IssueCredential\<close> returns carries the
  type tags \<^verbatim>\<open>VerifiableCredential\<close> and \<^verbatim>\<open>eIDASIdentityCredential\<close>, in this order and no
  others, for every backend.
\<close>

theorem IssueCredential_Type:
  "fst (IssueCredential b clock w pk vk r1cs subject) = Inr (cred, circuit)
     \<Longrightarrow> Type cred = [''VerifiableCredential'', ''eIDASIdentityCredential'']"
  by (auto simp: IssueCredential_def Let_def
           split: option.splits GoValue.splits sum.splits prod.splits)

theorem IssueCredential_Type_witness:
  "fst (IssueCredential ideal clock_2024 NewWallet 7 7 Define (subject_born ''1984-01-01''))
     = Inr (cred_1984, \<lparr>BirthYear = Some 1984, CurrentYear = Some 2024\<rparr>)
   \<and> Type cred_1984 = [''VerifiableCredential'', ''eIDASIdentityCredential'']"
proof -
  have h: "fst (IssueCredential ideal clock_2024 NewWallet 7 7 Define
             (subject_born ''1984-01-01''))
           = Inr (cred_1984, \<lparr>BirthYear = Some 1984, CurrentYear = Some 2024\<rparr>)"
    by (simp add: issue_1984)
  from IssueCredential_Type [OF h] h show ?thesis by simp
qed

text \<open>
  C8, as the specification states it, fails: the credential issued for the repository's
  own subject does not carry the tag \<^verbatim>\<open>AgeEligibilityCredential\<close>.
\<close>

theorem IssueCredential_no_AgeEligibility_tag:
  "(case fst (IssueCredential ideal clock_2024 NewWallet 7 7 Define
               (subject_born ''1984-01-01'')) of
      Inl err \<Rightarrow> False
    | Inr (cred, circuit) \<Rightarrow> ''AgeEligibilityCredential'' \<notin> set (Type cred))"
  by (simp add: issue_1984 cred_1984_def)

text \<open>
  C3. The credential is meant to keep the birth date private; the code stores the subject
  map it was given in the credential. For the repository's own subject the issued
  credential holds the claim \<^verbatim>\<open>birthDate = 1984-01-01\<close> in plain text, and the assignment
  returned next to it holds the birth year.
\<close>

theorem IssueCredential_keeps_birthDate:
  "(case fst (IssueCredential ideal clock_2024 NewWallet 7 7 Define
               (subject_born ''1984-01-01'')) of
      Inl err \<Rightarrow> False
    | Inr (cred, circuit) \<Rightarrow>
        Subject cred ''birthDate'' = Some (GoString (runes ''1984-01-01''))
        \<and> BirthYear circuit = Some 1984)"
  by (simp add: issue_1984 cred_1984_def)

section \<open>Verification\<close>

text \<open>
  C10. Two credentials that hold the same proof verify alike under the same assignment
  and verifying key, for every backend: the identifier, the type tags, the issuer, the
  issuance date and the subject are not looked at.
\<close>

theorem VerifyCredential_envelope:
  "Proof c1 = Proof c2 \<Longrightarrow> VerifyCredential b circuit c1 vk = VerifyCredential b circuit c2 vk"
  by (simp add: VerifyCredential_def)

theorem VerifyCredential_envelope_witness:
  "Proof cred_1984 = Proof (cred_1984\<lparr>ID := ''urn:uuid:0'', Type := [], Issuer := ''nobody'',
       IssuanceDate := \<lparr>Year = 1999, UnixNano = 0\<rparr>, Subject := Map.empty\<rparr>)
   \<and> VerifyCredential ideal \<lparr>BirthYear = Some 1984, CurrentYear = Some 2024\<rparr> cred_1984 7
     = Return (True, None)
   \<and> VerifyCredential ideal \<lparr>BirthYear = Some 1984, CurrentYear = Some 2024\<rparr>
       (cred_1984\<lparr>ID := ''urn:uuid:0'', Type := [], Issuer := ''nobody'',
          IssuanceDate := \<lparr>Year = 1999, UnixNano = 0\<rparr>, Subject := Map.empty\<rparr>) 7
     = Return (True, None)"
proof -
  have h: "Proof cred_1984 = Proof (cred_1984\<lparr>ID := ''urn:uuid:0'', Type := [],
       Issuer := ''nobody'', IssuanceDate := \<lparr>Year = 1999, UnixNano = 0\<rparr>,
       Subject := Map.empty\<rparr>)"
    by simp
  from VerifyCredential_envelope
         [OF h, of ideal "\<lparr>BirthYear = Some 1984, CurrentYear = Some 2024\<rparr>" 7]
       h verify_1984
  show ?thesis by simp
qed

text \<open>
  C6, as the code has it. The credential has no field for the public statement: the
  public input comes from the assignment that the caller passes next to the credential.
  When both variables of that assignment are assigned, the public witness handed to the
  backend's \<^verbatim>\<open>Verify\<close> holds the field element of \<^verbatim>\<open>CurrentYear\<close> and nothing else, so the
  outcome depends neither on the value of \<^verbatim>\<open>BirthYear\<close> nor on any field of the
  credential but its proof. This holds for every backend.
\<close>

theorem VerifyCredential_public_witness:
  "CurrentYear circuit = Some cy \<Longrightarrow> BirthYear circuit = Some birth \<Longrightarrow>
   VerifyCredential b circuit cred vk =
     (case Proof cred of
        None \<Rightarrow> Panic
      | Some p \<Rightarrow>
         (case Verify b p vk \<lparr>public_part = [SetInterface cy], secret_part = []\<rparr> of
            None \<Rightarrow> Return (True, None)
          | Some err \<Rightarrow> Return (False, Some err)))"
  by (simp add: VerifyCredential_def verifyZKProof_def NewWitness_def Public_def
           split: option.splits)

theorem VerifyCredential_public_witness_witness:
  "CurrentYear \<lparr>BirthYear = Some 1984, CurrentYear = Some 2024\<rparr> = Some 2024
   \<and> BirthYear \<lparr>BirthYear = Some 1984, CurrentYear = Some 2024\<rparr> = Some 1984
   \<and> Verify ideal \<lparr>proof_setup = 7, proof_public = [2024]\<rparr> 7
       \<lparr>public_part = [SetInterface 2024], secret_part = []\<rparr> = None
   \<and> VerifyCredential ideal \<lparr>BirthYear = Some 1984, CurrentYear = Some 2024\<rparr> cred_1984 7
       = Return (True, None)"
proof -
  have v: "Verify ideal \<lparr>proof_setup = 7, proof_public = [2024]\<rparr> 7
             \<lparr>public_part = [SetInterface 2024], secret_part = []\<rparr> = None"
    by (simp add: ideal_def ideal_Verify_def SetInterface_def ScalarField_def)
  have p: "Proof cred_1984 = Some \<lparr>proof_setup = 7, proof_public = [2024]\<rparr>"
    by (simp add: cred_1984_def)
  from VerifyCredential_public_witness
         [of "\<lparr>BirthYear = Some 1984, CurrentYear = Some 2024\<rparr>" 2024 1984 ideal cred_1984 7]
       v p
  show ?thesis by simp
qed

text \<open>
  C6, as the specification states it, fails. Were the public assignment rebuilt from the
  credential alone, one credential would verify alike under one key whatever the caller
  passes; it verifies under the assignment with the year 2024 and not under the one with
  2030. Nor is the private variable left unread: with \<^verbatim>\<open>BirthYear\<close> unassigned the
  witness cannot be built and verification fails before the backend is called.
\<close>

theorem VerifyCredential_depends_on_circuit:
  "VerifyCredential ideal \<lparr>BirthYear = Some 1984, CurrentYear = Some 2024\<rparr> cred_1984 7
     = Return (True, None)
   \<and> VerifyCredential ideal \<lparr>BirthYear = Some 1984, CurrentYear = Some 2030\<rparr> cred_1984 7
     = Return (False, Some InvalidProof)
   \<and> VerifyCredential ideal \<lparr>BirthYear = None, CurrentYear = Some 2024\<rparr> cred_1984 7
     = Return (False, Some NilVariable)"
  by (simp add: VerifyCredential_def ideal_defs cred_1984_def SetInterface_def ScalarField_def)

end
